theory Spec2Isabelle
  imports Main "HOL-Library.AList"
begin

section \<open>Values shared by the services\<close>

text \<open>
  A JavaScript \<^verbatim>\<open>Date\<close> is an instant, milliseconds since the epoch. A datetime column
  of the \<^verbatim>\<open>list\<close> table holds either a real instant or MySQL's all-zero value
  \<^verbatim>\<open>0000-00-00 00:00:00\<close>. A JavaScript \<^verbatim>\<open>null\<close> or \<^verbatim>\<open>undefined\<close> is \<open>None\<close>.
\<close>

type_synonym Date = int

datatype mysql_date = ZeroDate | DateTime Date

text \<open>
  Modelled from the spec: \<^verbatim>\<open>mysqlDateConvert\<close> of \<^verbatim>\<open>dataService/utils\<close> is not among
  the sources. The spec has the row transform treat the all-zero sentinel as absent, and
  the comment on \<^verbatim>\<open>convert\<close> says that values like \<^verbatim>\<open>0000-00-00 00:00:00\<close> are
  filtered out, returning null.
\<close>

fun mysqlDateConvert :: "mysql_date \<Rightarrow> Date option" where
  "mysqlDateConvert ZeroDate = None"
| "mysqlDateConvert (DateTime d) = Some d"

text \<open>
  \<^verbatim>\<open>Number.prototype.toString\<close> on an integer: its decimal digits, with a minus sign
  when negative.
\<close>

definition digit_char :: "nat \<Rightarrow> char" where
  "digit_char d = char_of (48 + d)"

function digits :: "nat \<Rightarrow> string" where
  "digits n = (if n < 10 then [digit_char n] else digits (n div 10) @ [digit_char (n mod 10)])"
  by pat_completeness auto
termination
  by (relation "measure id") auto

declare digits.simps [simp del]

definition toString :: "int \<Rightarrow> string" where
  "toString i = (if i < 0 then CHR ''-'' # digits (nat (- i)) else digits (nat i))"

section \<open>The list table and its row types\<close>

text \<open>
  \<^verbatim>\<open>RawListResult\<close> and \<^verbatim>\<open>ListResult\<close> have the same fields and differ in the type of
  \<^verbatim>\<open>status\<close> and of the four date columns, so they are one record with two parameters.
\<close>

record ('s, 'd) list_row =
  api_id :: string
  api_id_updated :: int
  favorite :: int
  given_url :: string
  item_id :: int
  resolved_id :: int
  status :: 's
  time_added :: 'd
  time_favorited :: 'd
  time_read :: 'd
  time_updated :: 'd
  title :: string
  user_id :: int

datatype PocketSaveStatusKey = UNREAD | ARCHIVED | DELETED | HIDDEN

type_synonym RawListResult = "(int, mysql_date) list_row"
type_synonym ListResult = "(PocketSaveStatusKey option, Date option) list_row"

text \<open>
  Modelled from the spec: the enum \<^verbatim>\<open>PocketSaveStatus\<close> of \<^verbatim>\<open>types\<close> is not among the
  sources. The spec gives the storage codes 0 for UNREAD, 1 for ARCHIVED and 2 for
  DELETED; HIDDEN, the member after DELETED, is 3.
\<close>

definition PocketSaveStatus_UNREAD :: int where "PocketSaveStatus_UNREAD = 0"
definition PocketSaveStatus_ARCHIVED :: int where "PocketSaveStatus_ARCHIVED = 1"
definition PocketSaveStatus_DELETED :: int where "PocketSaveStatus_DELETED = 2"
definition PocketSaveStatus_HIDDEN :: int where "PocketSaveStatus_HIDDEN = 3"

text \<open>
  \<^verbatim>\<open>statusMap\<close> is an object literal with four keys; \<^verbatim>\<open>statusMap[row.status]\<close> on any
  other key is \<^verbatim>\<open>undefined\<close>.
\<close>

definition statusMap :: "int \<Rightarrow> PocketSaveStatusKey option" where
  "statusMap = map_of
     [(PocketSaveStatus_UNREAD, UNREAD),
      (PocketSaveStatus_ARCHIVED, ARCHIVED),
      (PocketSaveStatus_DELETED, DELETED),
      (PocketSaveStatus_HIDDEN, HIDDEN)]"

definition convert :: "RawListResult \<Rightarrow> ListResult" where
  "convert row =
     \<lparr> api_id = api_id row,
       api_id_updated = api_id_updated row,
       favorite = favorite row,
       given_url = given_url row,
       item_id = item_id row,
       resolved_id = resolved_id row,
       status = statusMap (status row),
       time_added = mysqlDateConvert (time_added row),
       time_favorited = mysqlDateConvert (time_favorited row),
       time_read = mysqlDateConvert (time_read row),
       time_updated = mysqlDateConvert (time_updated row),
       title = title row,
       user_id = user_id row \<rparr>"

text \<open>
  \<^verbatim>\<open>PocketSaveDataService.convertListResult\<close>, for the one-row and the null overload and
  for the array overload.
\<close>

definition convertListResult :: "RawListResult option \<Rightarrow> ListResult option" where
  "convertListResult listResult =
     (case listResult of None \<Rightarrow> None | Some row \<Rightarrow> Some (convert row))"

definition convertListResults :: "RawListResult list \<Rightarrow> ListResult list" where
  "convertListResults listResult = map (\<lambda>row. convert row) listResult"

section \<open>PocketSaveModel: the row transform\<close>

text \<open>
  The fields of \<^verbatim>\<open>PocketSave\<close> named \<^verbatim>\<open>favorite\<close>, \<^verbatim>\<open>id\<close>, \<^verbatim>\<open>status\<close> and
  \<^verbatim>\<open>title\<close> carry the prefix \<open>ps_\<close> here, the plain names being those of the row.
\<close>

record PocketSave =
  archived :: bool
  archivedAt :: "Date option"
  createdAt :: "Date option"
  deletedAt :: "Date option"
  ps_favorite :: bool
  favoritedAt :: "Date option"
  givenUrl :: string
  ps_id :: string
  resolvedId :: "string option"
  ps_status :: "PocketSaveStatusKey option"
  ps_title :: string
  updatedAt :: "Date option"

definition transformListRow :: "ListResult \<Rightarrow> PocketSave" where
  "transformListRow row =
     \<lparr> archived = (if status row = Some ARCHIVED then True else False),
       archivedAt = (if status row = Some ARCHIVED then time_read row else None),
       createdAt = time_added row,
       deletedAt = (if status row = Some DELETED then time_updated row else None),
       ps_favorite = (if favorite row = 1 then True else False),
       favoritedAt = (if favorite row = 1 then time_favorited row else None),
       givenUrl = given_url row,
       ps_id = toString (item_id row),
       resolvedId = Some (toString (resolved_id row)),
       ps_status = status row,
       ps_title = title row,
       updatedAt = time_updated row \<rparr>"

section \<open>The request context and the storage\<close>

datatype db_client = readClient | writeClient

text \<open>
  \<^verbatim>\<open>IContext\<close>, with the members the code under study reads: the two identities and
  the Knex client. The user id is the number the \<^verbatim>\<open>user_id\<close> column holds.
\<close>

record IContext =
  apiId :: string
  userId :: int
  dbClient :: db_client

datatype statement = Select string | Insert string | Update string | Delete string

datatype EventType =
  ADD_ITEM | ARCHIVE_ITEM | UNARCHIVE_ITEM | FAVORITE_ITEM | UNFAVORITE_ITEM | DELETE_ITEM
  | ADD_TAGS | REPLACE_TAGS | REMOVE_TAGS | CLEAR_TAGS

text \<open>
  \<^verbatim>\<open>SavedItem\<close> of \<^verbatim>\<open>types\<close>, with the members the resolvers read (\<^verbatim>\<open>isFavorite\<close>,
  \<^verbatim>\<open>isArchived\<close>) and its identity.
\<close>

record SavedItem =
  si_id :: string
  url :: string
  isFavorite :: bool
  isArchived :: bool

text \<open>
  The storage and what leaves the process: the \<^verbatim>\<open>list\<close> table, the \<^verbatim>\<open>item_tags\<close>
  association table (user id, item id as the resolvers pass it, tag name), the events handed to
  \<^verbatim>\<open>context.emitItemEvent\<close> (kind, entity or null, tag names), oldest first, and the statements
  issued, oldest first, each with the client it went to.
\<close>

record world =
  list_table :: "RawListResult list"
  item_tags :: "(int \<times> string \<times> string) list"
  events :: "(EventType \<times> SavedItem option \<times> string list) list"
  statements :: "(db_client \<times> statement) list"

definition issue :: "IContext \<Rightarrow> statement \<Rightarrow> world \<Rightarrow> world" where
  "issue context st w = w\<lparr>statements := statements w @ [(dbClient context, st)]\<rparr>"

section \<open>The saved-item services the resolvers call\<close>

text \<open>
  Modelled from the spec: \<^verbatim>\<open>SavedItemDataService.getSavedItemById\<close> is not among the
  sources. The spec's read by id is scoped to the user of the context and gives the
  entity or nothing; the identifier is the string form of the item id. The read is one
  \<^verbatim>\<open>select\<close> on the client of the context.
\<close>

definition toSavedItem :: "RawListResult \<Rightarrow> SavedItem" where
  "toSavedItem r =
     \<lparr> si_id = toString (item_id r),
       url = given_url r,
       isFavorite = (favorite r = 1),
       isArchived = (status r = PocketSaveStatus_ARCHIVED) \<rparr>"

definition is_saved_item :: "IContext \<Rightarrow> string \<Rightarrow> RawListResult \<Rightarrow> bool" where
  "is_saved_item context sid r \<longleftrightarrow> user_id r = userId context \<and> toString (item_id r) = sid"

definition getSavedItemById :: "IContext \<Rightarrow> string \<Rightarrow> world \<Rightarrow> SavedItem option \<times> world" where
  "getSavedItemById context sid w =
     (map_option toSavedItem (find (is_saved_item context sid) (list_table w)),
      issue context (Select ''list'') w)"

text \<open>
  What the external parser service returns for a URL, and the input of the upsert. The
  resolver only tests \<^verbatim>\<open>isFavorite\<close> for truth, so a flag left out behaves as
  \<^verbatim>\<open>false\<close> and the field is a boolean here.
\<close>

record ParserItem =
  itemId :: int
  parser_resolvedId :: int

record SavedItemUpsertInput =
  input_url :: string
  input_isFavorite :: bool
  input_timestamp :: Date

text \<open>
  Modelled from the spec: \<^verbatim>\<open>SavedItemMutationService.upsertSavedItem\<close> is not among the
  sources. In the spec a first save inserts a row with the favorite flag as given, and a
  save of an item the user already has proceeds as an update that returns the status to
  UNREAD.
\<close>

definition SavedItemMutationService_upsertSavedItem ::
  "IContext \<Rightarrow> ParserItem \<Rightarrow> SavedItemUpsertInput \<Rightarrow> world \<Rightarrow> world" where
  "SavedItemMutationService_upsertSavedItem context item input w =
     (let mine = (\<lambda>r. user_id r = userId context \<and> item_id r = itemId item);
          fav = (if input_isFavorite input then 1 else 0);
          now = DateTime (input_timestamp input);
          tbl = list_table w;
          tbl' =
            (if list_ex mine tbl
             then map (\<lambda>r. if mine r
                            then r\<lparr>status := PocketSaveStatus_UNREAD, favorite := fav,
                                   given_url := input_url input, time_updated := now\<rparr>
                            else r) tbl
             else tbl @
               [\<lparr> api_id = apiId context, api_id_updated = 0, favorite = fav,
                   given_url = input_url input, item_id = itemId item,
                   resolved_id = parser_resolvedId item, status = PocketSaveStatus_UNREAD,
                   time_added = now,
                   time_favorited = (if input_isFavorite input then now else ZeroDate),
                   time_read = ZeroDate, time_updated = now, title = [],
                   user_id = userId context \<rparr>])
      in issue context (Insert ''list'') (w\<lparr>list_table := tbl'\<rparr>))"

text \<open>
  Modelled from the spec: \<^verbatim>\<open>context.emitItemEvent\<close> is not among the sources. The
  spec's gateway takes the kind, the entity and the tag names, and never fails the
  mutation that calls it.
\<close>

definition emitItemEvent :: "EventType \<Rightarrow> SavedItem option \<Rightarrow> string list \<Rightarrow> world \<Rightarrow> world" where
  "emitItemEvent eventType savedItem tags w = w\<lparr>events := events w @ [(eventType, savedItem, tags)]\<rparr>"

datatype error = Error string | UserInputError string | NotFoundError string

section \<open>Mutation resolvers\<close>

text \<open>
  \<^verbatim>\<open>ParserCaller.getOrCreateItem\<close> is the external parser; the model takes it as a
  function that gives the item for a URL, or nothing when the call throws. Whatever is
  thrown inside the \<^verbatim>\<open>try\<close> is caught and thrown again as the one error that names the
  URL.
\<close>

definition upsertSavedItem ::
  "(string \<Rightarrow> ParserItem option) \<Rightarrow> SavedItemUpsertInput \<Rightarrow> IContext \<Rightarrow> world
     \<Rightarrow> (error + SavedItem) \<times> world" where
  "upsertSavedItem getOrCreateItem savedItemUpsertInput context w =
     (let failure = Inl (Error (''unable to add item with url: '' @ input_url savedItemUpsertInput))
      in case getOrCreateItem (input_url savedItemUpsertInput) of
           None \<Rightarrow> (failure, w)
         | Some item \<Rightarrow>
            (let (existingItem, w1) = getSavedItemById context (toString (itemId item)) w;
                 shouldSendFavoriteEvent =
                   (input_isFavorite savedItemUpsertInput \<and>
                    \<not> (case existingItem of None \<Rightarrow> False | Some e \<Rightarrow> isFavorite e));
                 input' =
                   (case existingItem of
                      None \<Rightarrow> savedItemUpsertInput
                    | Some e \<Rightarrow>
                        if \<not> input_isFavorite savedItemUpsertInput
                        then savedItemUpsertInput\<lparr>input_isFavorite := isFavorite e\<rparr>
                        else savedItemUpsertInput);
                 w2 = SavedItemMutationService_upsertSavedItem context item input' w1;
                 (upsertedItem, w3) = getSavedItemById context (toString (itemId item)) w2
             in case upsertedItem of
                  None \<Rightarrow> (failure, w3)
                | Some u \<Rightarrow>
                   (let w4 = (case existingItem of
                                Some e \<Rightarrow>
                                  if isArchived e
                                  then emitItemEvent UNARCHIVE_ITEM (Some u) [] w3
                                  else w3
                              | None \<Rightarrow> emitItemEvent ADD_ITEM (Some u) [] w3);
                        w5 = (if shouldSendFavoriteEvent
                              then emitItemEvent FAVORITE_ITEM (Some u) [] w4
                              else w4)
                    in (Inr u, w5))))"

section \<open>Tags of a saved item\<close>

text \<open>
  A row of \<^verbatim>\<open>item_tags\<close> is (user id, item id as the resolvers pass it, tag name). A tag
  is a name with at least one row, so a tag whose last association goes is gone with it.
\<close>

record Tag =
  name :: string

definition tag_row_of :: "IContext \<Rightarrow> string \<Rightarrow> int \<times> string \<times> string \<Rightarrow> bool" where
  "tag_row_of context savedItemId row \<longleftrightarrow>
     fst row = userId context \<and> fst (snd row) = savedItemId"

text \<open>
  Modelled from the spec: \<^verbatim>\<open>TagDataService.getTagsByUserItem\<close> is not among the sources.
  The spec's read gives the ordered list of the tags of one saved item of the user.
\<close>

definition getTagsByUserItem :: "IContext \<Rightarrow> string \<Rightarrow> world \<Rightarrow> Tag list \<times> world" where
  "getTagsByUserItem context savedItemId w =
     (map (\<lambda>row. \<lparr> name = snd (snd row) \<rparr>) (filter (tag_row_of context savedItemId) (item_tags w)),
      issue context (Select ''item_tags'') w)"

text \<open>
  Modelled from the spec: \<^verbatim>\<open>TagMutationService.updateSavedItemRemoveTags\<close> is not among
  the sources. The spec's tag removal deletes all associations of one saved item.
\<close>

definition TagMutationService_updateSavedItemRemoveTags :: "IContext \<Rightarrow> string \<Rightarrow> world \<Rightarrow> world" where
  "TagMutationService_updateSavedItemRemoveTags context savedItemId w =
     issue context (Delete ''item_tags'')
       (w\<lparr>item_tags := filter (\<lambda>row. \<not> tag_row_of context savedItemId row) (item_tags w)\<rparr>)"

record SavedItemTagUpdateInput =
  input_savedItemId :: string
  input_tagIds :: "string list"

text \<open>
  Modelled from the spec: \<^verbatim>\<open>TagMutationService.updateSavedItemTags\<close> is not among the
  sources. The spec's tag replacement replaces the prior associations of the saved item
  with the new set. A tag id is the encoded tag name.
\<close>

definition TagMutationService_updateSavedItemTags ::
  "(string \<Rightarrow> string) \<Rightarrow> IContext \<Rightarrow> SavedItemTagUpdateInput \<Rightarrow> world \<Rightarrow> world" where
  "TagMutationService_updateSavedItemTags decodeBase64ToPlainText context input w =
     (let w1 = TagMutationService_updateSavedItemRemoveTags context (input_savedItemId input) w
      in issue context (Insert ''item_tags'')
           (w1\<lparr>item_tags := item_tags w1 @
                  map (\<lambda>tagId. (userId context, input_savedItemId input, decodeBase64ToPlainText tagId))
                    (input_tagIds input)\<rparr>))"

text \<open>
  \<^verbatim>\<open>decodeBase64ToPlainText\<close> of \<^verbatim>\<open>dataService/utils\<close> is a parameter. The second read
  of the saved item is not checked for null, so the result is an optional entity.
\<close>

definition updateSavedItemTags ::
  "(string \<Rightarrow> string) \<Rightarrow> SavedItemTagUpdateInput \<Rightarrow> IContext \<Rightarrow> world
     \<Rightarrow> (error + SavedItem option) \<times> world" where
  "updateSavedItemTags decodeBase64ToPlainText input context w =
     (if length (input_tagIds input) \<le> 0
      then (Inl (UserInputError
              (''SavedItemTagUpdateInput.tagIds cannot be empty. use mutation updateSavedItemRemoveTags to''
               @ ''remove all tags'')), w)
      else
        (let (found, w1) = getSavedItemById context (input_savedItemId input) w
         in if found = None
            then (Inl (NotFoundError (''SavedItem Id '' @ input_savedItemId input @ '' does not exist'')), w1)
            else
              (let w2 = TagMutationService_updateSavedItemTags decodeBase64ToPlainText context input w1;
                   (savedItem, w3) = getSavedItemById context (input_savedItemId input) w2;
                   w4 = emitItemEvent REPLACE_TAGS savedItem
                          (map (\<lambda>id. decodeBase64ToPlainText id) (input_tagIds input)) w3
               in (Inr savedItem, w4))))"

definition updateSavedItemRemoveTags ::
  "string \<Rightarrow> IContext \<Rightarrow> world \<Rightarrow> (error + SavedItem) \<times> world" where
  "updateSavedItemRemoveTags savedItemId context w =
     (let (tagsCleared, w1) = getTagsByUserItem context savedItemId w;
          w2 = TagMutationService_updateSavedItemRemoveTags context savedItemId w1;
          (savedItem, w3) = getSavedItemById context savedItemId w2
      in case savedItem of
           None \<Rightarrow> (Inl (NotFoundError (''SavedItem Id '' @ savedItemId @ '' does not exist'')), w3)
         | Some s \<Rightarrow>
             (Inr s, emitItemEvent CLEAR_TAGS (Some s) (map (\<lambda>tag. name tag) tagsCleared) w3))"

section \<open>Mutations on the write connection\<close>



section \<open>Example data\<close>

definition example_context :: IContext where
  "example_context = \<lparr> apiId = ''0'', userId = 1, dbClient = readClient \<rparr>"

text \<open>A row of user 1 with the given item id, status code, favorite flag and archive time.\<close>

definition example_row :: "int \<Rightarrow> int \<Rightarrow> int \<Rightarrow> mysql_date \<Rightarrow> RawListResult" where
  "example_row n st fav readAt =
     \<lparr> api_id = ''0'', api_id_updated = 0, favorite = fav, given_url = ''http://a'', item_id = n,
       resolved_id = n, status = st, time_added = DateTime 50, time_favorited = ZeroDate,
       time_read = readAt, time_updated = DateTime 50, title = ''a'', user_id = 1 \<rparr>"

text \<open>
  User 1 has item 10, unread, and item 12, a favorite archived at instant 100; the tag
  table has a row left over for item 11, which the user does not have.
\<close>

definition example_world :: world where
  "example_world =
     \<lparr> list_table = [example_row 10 0 0 ZeroDate, example_row 12 1 1 (DateTime 100)],
       item_tags = [(1, ''11'', ''old''), (1, ''10'', ''news'')],
       events = [],
       statements = [] \<rparr>"

text \<open>The parser knows two URLs: the one of item 12 and one of an item 13 nobody has saved yet.\<close>

definition example_parser :: "string \<Rightarrow> ParserItem option" where
  "example_parser u =
     (if u = ''http://a'' then Some \<lparr> itemId = 12, parser_resolvedId = 12 \<rparr>
      else if u = ''http://b'' then Some \<lparr> itemId = 13, parser_resolvedId = 13 \<rparr>
      else None)"

section \<open>Facts about the printed form of an item id\<close>

lemma digits_ne: "digits n \<noteq> []"
  by (subst digits.simps) simp

lemma of_char_digit_char: "d < 10 \<Longrightarrow> of_char (digit_char d) = 48 + d"
  by (simp add: digit_char_def)

lemma digit_char_inj: "a < 10 \<Longrightarrow> b < 10 \<Longrightarrow> digit_char a = digit_char b \<Longrightarrow> a = b"
proof -
  assume a: "a < 10" and b: "b < 10" and e: "digit_char a = digit_char b"
  from e have "(of_char (digit_char a) :: nat) = of_char (digit_char b)" by simp
  with a b show "a = b" by (simp add: of_char_digit_char)
qed

lemma digits_inj: "digits m = digits n \<Longrightarrow> m = n"
proof (induction n arbitrary: m rule: digits.induct)
  case (1 n)
  show ?case
  proof (cases "n < 10")
    case True
    then have dn: "digits n = [digit_char n]" by (subst digits.simps) simp
    show ?thesis
    proof (cases "m < 10")
      case True
      then have "digits m = [digit_char m]" by (subst digits.simps) simp
      with dn "1.prems" have "digit_char m = digit_char n" by simp
      with True \<open>n < 10\<close> show ?thesis by (rule digit_char_inj)
    next
      case False
      then have "digits m = digits (m div 10) @ [digit_char (m mod 10)]"
        by (subst digits.simps) simp
      with dn "1.prems" have "digits (m div 10) = []" by simp
      then show ?thesis by (simp add: digits_ne)
    qed
  next
    case False
    then have dn: "digits n = digits (n div 10) @ [digit_char (n mod 10)]"
      by (subst digits.simps) simp
    show ?thesis
    proof (cases "m < 10")
      case True
      then have "digits m = [digit_char m]" by (subst digits.simps) simp
      with dn "1.prems" have "digits (n div 10) = []" by simp
      then show ?thesis by (simp add: digits_ne)
    next
      case m: False
      then have "digits m = digits (m div 10) @ [digit_char (m mod 10)]"
        by (subst digits.simps) simp
      with dn "1.prems" have a: "digits (m div 10) = digits (n div 10)"
        and b: "digit_char (m mod 10) = digit_char (n mod 10)" by simp_all
      from a have "m div 10 = n div 10" by (rule "1.IH"[OF False])
      moreover from b have "m mod 10 = n mod 10" by (intro digit_char_inj) simp_all
      ultimately show ?thesis by (metis div_mult_mod_eq)
    qed
  qed
qed

lemma digits_chars: "c \<in> set (digits n) \<Longrightarrow> (of_char c :: nat) \<ge> 48"
proof (induction n rule: digits.induct)
  case (1 n)
  show ?case
  proof (cases "n < 10")
    case True
    with "1.prems" have "c = digit_char n" by (subst (asm) digits.simps) simp
    with True show ?thesis by (simp add: of_char_digit_char)
  next
    case False
    with "1.prems" have "c \<in> set (digits (n div 10)) \<or> c = digit_char (n mod 10)"
      by (subst (asm) digits.simps) auto
    then show ?thesis
    proof
      assume "c \<in> set (digits (n div 10))"
      then show ?thesis by (rule "1.IH"[OF False])
    next
      assume "c = digit_char (n mod 10)"
      then show ?thesis by (simp add: of_char_digit_char)
    qed
  qed
qed

lemma digits_not_minus: "digits n \<noteq> CHR ''-'' # s"
proof
  assume h: "digits n = CHR ''-'' # s"
  then have "CHR ''-'' \<in> set (digits n)" by simp
  then have "(of_char (CHR ''-'') :: nat) \<ge> 48" by (rule digits_chars)
  then show False by simp
qed

lemma toString_inj: "toString a = toString b \<Longrightarrow> a = b"
proof -
  assume e: "toString a = toString b"
  show "a = b"
  proof (cases "a < 0")
    case True
    show ?thesis
    proof (cases "b < 0")
      case b: True
      with True e have "digits (nat (- a)) = digits (nat (- b))" by (simp add: toString_def)
      then have "nat (- a) = nat (- b)" by (rule digits_inj)
      with True b show ?thesis by simp
    next
      case False
      with True e have "digits (nat b) = CHR ''-'' # digits (nat (- a))" by (simp add: toString_def)
      then show ?thesis by (simp add: digits_not_minus)
    qed
  next
    case False
    show ?thesis
    proof (cases "b < 0")
      case True
      with False e have "digits (nat a) = CHR ''-'' # digits (nat (- b))" by (simp add: toString_def)
      then show ?thesis by (simp add: digits_not_minus)
    next
      case b: False
      with False e have "digits (nat a) = digits (nat b)" by (simp add: toString_def)
      then have "nat a = nat b" by (rule digits_inj)
      with False b show ?thesis by simp
    qed
  qed
qed

lemma toString_eq_iff: "toString a = toString b \<longleftrightarrow> a = b"
  using toString_inj by blast

lemmas status_codes =
  PocketSaveStatus_UNREAD_def PocketSaveStatus_ARCHIVED_def
  PocketSaveStatus_DELETED_def PocketSaveStatus_HIDDEN_def

lemma statusMap_code:
  "statusMap c =
     (if c = 0 then Some UNREAD else if c = 1 then Some ARCHIVED
      else if c = 2 then Some DELETED else if c = 3 then Some HIDDEN else None)"
  by (simp add: statusMap_def status_codes)

section \<open>The row transform\<close>

text \<open>
  C5, as amended. The row transform never fails on the status code: a code among 0, 1, 2
  and 3 gives its status name, and every other code gives a row whose status is undefined.
  No error is raised for it.
\<close>

theorem convert_status:
  "status (convert row) =
     (if status row = 0 then Some UNREAD else if status row = 1 then Some ARCHIVED
      else if status row = 2 then Some DELETED else if status row = 3 then Some HIDDEN
      else None)"
  by (simp add: convert_def statusMap_code)

text \<open>
  C5 as stated fails: the row with status code 7 is converted, and its status is undefined.
\<close>

theorem convert_unknown_status_counterexample:
  "status (convert
     \<lparr> api_id = ''0'', api_id_updated = 0, favorite = 0, given_url = ''http://a'', item_id = 10,
       resolved_id = 10, status = 7, time_added = DateTime 50, time_favorited = ZeroDate,
       time_read = ZeroDate, time_updated = DateTime 50, title = ''a'', user_id = 1 \<rparr>) = None"
  by (simp add: convert_def statusMap_code)

text \<open>
  C6, as amended. For every raw row, the transformed entity has an archive time exactly
  when its status is ARCHIVED and the \<^verbatim>\<open>time_read\<close> column is not the zero date. So a
  present archive time implies the status ARCHIVED, and not the other way round.
\<close>

theorem archivedAt_present_iff:
  "(archivedAt (transformListRow (convert row)) \<noteq> None) =
     (ps_status (transformListRow (convert row)) = Some ARCHIVED \<and> time_read row \<noteq> ZeroDate)"
  by (cases "time_read row") (simp_all add: transformListRow_def convert_def)

text \<open>
  C6 as stated fails: a row with status code 1 whose \<^verbatim>\<open>time_read\<close> is the zero date
  is transformed to an entity with status ARCHIVED and no archive time.
\<close>

theorem archived_zero_date_counterexample:
  "ps_status (transformListRow (convert
     \<lparr> api_id = ''0'', api_id_updated = 0, favorite = 0, given_url = ''http://a'', item_id = 10,
       resolved_id = 10, status = 1, time_added = DateTime 50, time_favorited = ZeroDate,
       time_read = ZeroDate, time_updated = DateTime 50, title = ''a'', user_id = 1 \<rparr>)) = Some ARCHIVED
   \<and> archivedAt (transformListRow (convert
     \<lparr> api_id = ''0'', api_id_updated = 0, favorite = 0, given_url = ''http://a'', item_id = 10,
       resolved_id = 10, status = 1, time_added = DateTime 50, time_favorited = ZeroDate,
       time_read = ZeroDate, time_updated = DateTime 50, title = ''a'', user_id = 1 \<rparr>)) = None"
  by (simp add: transformListRow_def convert_def statusMap_code)

text \<open>
  C7. For every raw row, a date column that holds the zero date gives an absent date in
  every field of the transformed entity that is taken from it, and a row with
  \<^verbatim>\<open>favorite = 0\<close> has no favorite time, whatever \<^verbatim>\<open>time_favorited\<close> holds.
\<close>

theorem zero_date_absent:
  "(time_added row = ZeroDate \<longrightarrow> createdAt (transformListRow (convert row)) = None) \<and>
   (time_read row = ZeroDate \<longrightarrow> archivedAt (transformListRow (convert row)) = None) \<and>
   (time_favorited row = ZeroDate \<longrightarrow> favoritedAt (transformListRow (convert row)) = None) \<and>
   (time_updated row = ZeroDate \<longrightarrow>
      updatedAt (transformListRow (convert row)) = None \<and>
      deletedAt (transformListRow (convert row)) = None) \<and>
   (favorite row = 0 \<longrightarrow> favoritedAt (transformListRow (convert row)) = None)"
  by (simp add: transformListRow_def convert_def)

text \<open>
  The hypotheses of C7 hold together at a row whose four date columns are the zero date and
  whose favorite flag is 0.
\<close>

theorem zero_date_absent_witness:
  "time_added (example_row 10 1 0 ZeroDate\<lparr>time_added := ZeroDate, time_updated := ZeroDate\<rparr>) = ZeroDate
   \<and> favorite (example_row 10 1 0 ZeroDate\<lparr>time_added := ZeroDate, time_updated := ZeroDate\<rparr>) = 0
   \<and> createdAt (transformListRow (convert
        (example_row 10 1 0 ZeroDate\<lparr>time_added := ZeroDate, time_updated := ZeroDate\<rparr>))) = None
   \<and> archivedAt (transformListRow (convert
        (example_row 10 1 0 ZeroDate\<lparr>time_added := ZeroDate, time_updated := ZeroDate\<rparr>))) = None
   \<and> favoritedAt (transformListRow (convert
        (example_row 10 1 0 ZeroDate\<lparr>time_added := ZeroDate, time_updated := ZeroDate\<rparr>))) = None
   \<and> updatedAt (transformListRow (convert
        (example_row 10 1 0 ZeroDate\<lparr>time_added := ZeroDate, time_updated := ZeroDate\<rparr>))) = None
   \<and> deletedAt (transformListRow (convert
        (example_row 10 1 0 ZeroDate\<lparr>time_added := ZeroDate, time_updated := ZeroDate\<rparr>))) = None"
  using zero_date_absent
    [of "example_row 10 1 0 ZeroDate\<lparr>time_added := ZeroDate, time_updated := ZeroDate\<rparr>"]
  by (simp add: example_row_def)

section \<open>Upsert\<close>

lemma issue_fields [simp]:
  "list_table (issue context st w) = list_table w"
  "item_tags (issue context st w) = item_tags w"
  "events (issue context st w) = events w"
  "statements (issue context st w) = statements w @ [(dbClient context, st)]"
  by (simp_all add: issue_def)

lemma emit_fields [simp]:
  "list_table (emitItemEvent k s ts w) = list_table w"
  "item_tags (emitItemEvent k s ts w) = item_tags w"
  "events (emitItemEvent k s ts w) = events w @ [(k, s, ts)]"
  "statements (emitItemEvent k s ts w) = statements w"
  by (simp_all add: emitItemEvent_def)

lemma getSavedItemById_fst:
  "fst (getSavedItemById context sid w) =
     map_option toSavedItem (find (is_saved_item context sid) (list_table w))"
  by (simp add: getSavedItemById_def)

lemma getSavedItemById_snd: "snd (getSavedItemById context sid w) = issue context (Select ''list'') w"
  by (simp add: getSavedItemById_def)

lemma is_saved_item_toString:
  "is_saved_item context (toString n) r \<longleftrightarrow> user_id r = userId context \<and> item_id r = n"
  by (simp add: is_saved_item_def toString_eq_iff)

lemma find_map_if:
  "(\<And>x. P (f x) = P x) \<Longrightarrow>
     find P (map (\<lambda>x. if P x then f x else x) xs) = map_option f (find P xs)"
  by (induction xs) simp_all

lemma find_append_new:
  "P y \<Longrightarrow> \<not> list_ex P xs \<Longrightarrow> find P (xs @ [y]) = Some y"
  by (induction xs) simp_all

lemma find_None_list_ex: "find P xs = None \<longleftrightarrow> \<not> list_ex P xs"
  by (auto simp: find_None_iff list_ex_iff)

lemma upsert_read_back_existing:
  assumes "find (is_saved_item context (toString (itemId item))) (list_table w) = Some r"
  shows "find (is_saved_item context (toString (itemId item)))
           (list_table (SavedItemMutationService_upsertSavedItem context item input w)) =
         Some (r\<lparr>status := PocketSaveStatus_UNREAD,
                 favorite := (if input_isFavorite input then 1 else 0),
                 given_url := input_url input,
                 time_updated := DateTime (input_timestamp input)\<rparr>)"
proof -
  let ?P = "is_saved_item context (toString (itemId item))"
  let ?f = "\<lambda>r. r\<lparr>status := PocketSaveStatus_UNREAD,
                 favorite := (if input_isFavorite input then 1 else 0),
                 given_url := input_url input,
                 time_updated := DateTime (input_timestamp input)\<rparr>"
  have P: "?P = (\<lambda>r. user_id r = userId context \<and> item_id r = itemId item)"
    by (rule ext) (simp add: is_saved_item_toString)
  from assms have ex: "list_ex ?P (list_table w)"
    using find_None_list_ex [of ?P "list_table w"] by simp
  have "find ?P (map (\<lambda>x. if ?P x then ?f x else x) (list_table w)) = map_option ?f (find ?P (list_table w))"
    by (rule find_map_if) (simp add: is_saved_item_def)
  with assms ex show ?thesis
    unfolding SavedItemMutationService_upsertSavedItem_def Let_def P [symmetric]
    by (simp add: P)
qed


lemma upsert_read_back_new:
  assumes "find (is_saved_item context (toString (itemId item))) (list_table w) = None"
  shows "\<exists>r. find (is_saved_item context (toString (itemId item)))
           (list_table (SavedItemMutationService_upsertSavedItem context item input w)) = Some r
         \<and> favorite r = (if input_isFavorite input then 1 else 0)
         \<and> status r = PocketSaveStatus_UNREAD"
proof -
  let ?P = "is_saved_item context (toString (itemId item))"
  have P: "?P = (\<lambda>r. user_id r = userId context \<and> item_id r = itemId item)"
    by (rule ext) (simp add: is_saved_item_toString)
  from assms have ex: "\<not> list_ex ?P (list_table w)"
    by (simp add: find_None_list_ex)
  show ?thesis
    unfolding SavedItemMutationService_upsertSavedItem_def Let_def P [symmetric]
    using ex by (simp add: find_append_new is_saved_item_toString)
qed

lemma upsert_service_fields [simp]:
  "events (SavedItemMutationService_upsertSavedItem context item input w) = events w"
  "item_tags (SavedItemMutationService_upsertSavedItem context item input w) = item_tags w"
  by (simp_all add: SavedItemMutationService_upsertSavedItem_def Let_def)

lemma upsertSavedItem_unfold:
  assumes "getOrCreateItem (input_url input) = Some item"
  shows "upsertSavedItem getOrCreateItem input context w =
     (let existingItem = fst (getSavedItemById context (toString (itemId item)) w);
          w1 = issue context (Select ''list'') w;
          input' = (case existingItem of
                      None \<Rightarrow> input
                    | Some e \<Rightarrow> if \<not> input_isFavorite input
                               then input\<lparr>input_isFavorite := isFavorite e\<rparr> else input);
          w2 = SavedItemMutationService_upsertSavedItem context item input' w1;
          w3 = issue context (Select ''list'') w2
      in case fst (getSavedItemById context (toString (itemId item)) w2) of
           None \<Rightarrow> (Inl (Error (''unable to add item with url: '' @ input_url input)), w3)
         | Some u \<Rightarrow>
             (Inr u,
              w3\<lparr>events := events w @
                   (case existingItem of
                      None \<Rightarrow> [(ADD_ITEM, Some u, [])]
                    | Some e \<Rightarrow> if isArchived e then [(UNARCHIVE_ITEM, Some u, [])] else []) @
                   (if input_isFavorite input \<and>
                       \<not> (case existingItem of None \<Rightarrow> False | Some e \<Rightarrow> isFavorite e)
                    then [(FAVORITE_ITEM, Some u, [])] else [])\<rparr>))"
  using assms
  by (simp add: upsertSavedItem_def getSavedItemById_def Let_def emitItemEvent_def
      split: option.splits)


text \<open>
  C3. For every upsert whose URL the parser resolves to an item the caller already has
  as a favorite, a call with \<^verbatim>\<open>isFavorite = false\<close> succeeds, and the item it returns,
  which is the item stored afterwards, is still a favorite.
\<close>

theorem upsert_never_unfavorites:
  assumes "getOrCreateItem (input_url input) = Some item"
    and "fst (getSavedItemById context (toString (itemId item)) w) = Some existingItem"
    and "isFavorite existingItem"
    and "\<not> input_isFavorite input"
  shows "\<exists>u. fst (upsertSavedItem getOrCreateItem input context w) = Inr u \<and> isFavorite u \<and>
           fst (getSavedItemById context (toString (itemId item))
                  (snd (upsertSavedItem getOrCreateItem input context w))) = Some u"
proof -
  let ?P = "is_saved_item context (toString (itemId item))"
  from assms(2) obtain r where r: "find ?P (list_table w) = Some r"
    and e: "existingItem = toSavedItem r"
    by (auto simp: getSavedItemById_fst)
  let ?inp = "input\<lparr>input_isFavorite := isFavorite existingItem\<rparr>"
  let ?w1 = "issue context (Select ''list'') w"
  let ?w2 = "SavedItemMutationService_upsertSavedItem context item ?inp ?w1"
  let ?upd = "r\<lparr>status := PocketSaveStatus_UNREAD, favorite := 1,
                given_url := input_url input, time_updated := DateTime (input_timestamp input)\<rparr>"
  from r have "find ?P (list_table ?w1) = Some r" by simp
  then have "find ?P (list_table ?w2) =
      Some (r\<lparr>status := PocketSaveStatus_UNREAD,
              favorite := (if input_isFavorite ?inp then 1 else 0),
              given_url := input_url ?inp,
              time_updated := DateTime (input_timestamp ?inp)\<rparr>)"
    by (rule upsert_read_back_existing)
  with assms(3) have readback: "find ?P (list_table ?w2) = Some ?upd" by simp
  then have a: "fst (getSavedItemById context (toString (itemId item)) ?w2) = Some (toSavedItem ?upd)"
    by (simp add: getSavedItemById_fst)
  have fav: "isFavorite (toSavedItem ?upd)" by (simp add: toSavedItem_def)
  obtain w' where res: "upsertSavedItem getOrCreateItem input context w = (Inr (toSavedItem ?upd), w')"
    and tbl: "list_table w' = list_table ?w2"
    using a assms(2,4)
    by (simp add: upsertSavedItem_unfold [where getOrCreateItem = getOrCreateItem, OF assms(1)] Let_def)
  from tbl readback
  have "fst (getSavedItemById context (toString (itemId item)) w') = Some (toSavedItem ?upd)"
    by (simp add: getSavedItemById_fst)
  with res fav show ?thesis by simp
qed

text \<open>
  Item 12 of the example is a favorite, and archived; the upsert of its URL with
  \<^verbatim>\<open>isFavorite = false\<close> returns it as a favorite.
\<close>

theorem upsert_never_unfavorites_witness:
  "example_parser ''http://a'' = Some \<lparr> itemId = 12, parser_resolvedId = 12 \<rparr>
   \<and> fst (getSavedItemById example_context (toString 12) example_world) =
       Some \<lparr> si_id = ''12'', url = ''http://a'', isFavorite = True, isArchived = True \<rparr>
   \<and> fst (upsertSavedItem example_parser
        \<lparr> input_url = ''http://a'', input_isFavorite = False, input_timestamp = 300 \<rparr>
        example_context example_world) =
       Inr \<lparr> si_id = ''12'', url = ''http://a'', isFavorite = True, isArchived = False \<rparr>"
proof -
  have h1: "example_parser
      (input_url \<lparr> input_url = ''http://a'', input_isFavorite = False, input_timestamp = 300 \<rparr>) =
      Some \<lparr> itemId = 12, parser_resolvedId = 12 \<rparr>"
    by (simp add: example_parser_def)
  have h2: "fst (getSavedItemById example_context
        (toString (itemId \<lparr> itemId = 12, parser_resolvedId = 12 \<rparr>)) example_world) =
      Some \<lparr> si_id = ''12'', url = ''http://a'', isFavorite = True, isArchived = True \<rparr>"
    by code_simp
  have h3: "isFavorite \<lparr> si_id = ''12'', url = ''http://a'', isFavorite = True, isArchived = True \<rparr>"
    by simp
  have h4: "\<not> input_isFavorite
      \<lparr> input_url = ''http://a'', input_isFavorite = False, input_timestamp = 300 \<rparr>"
    by simp
  have r: "fst (upsertSavedItem example_parser
        \<lparr> input_url = ''http://a'', input_isFavorite = False, input_timestamp = 300 \<rparr>
        example_context example_world) =
       Inr \<lparr> si_id = ''12'', url = ''http://a'', isFavorite = True, isArchived = False \<rparr>"
    by code_simp
  show ?thesis
    using upsert_never_unfavorites [where getOrCreateItem = example_parser, OF h1 h2 h3 h4] h1 h2 r by simp
qed

text \<open>
  C4. For every successful upsert, the events emitted by the call are, in this order:
  ADD_ITEM when the caller had no such item, or UNARCHIVE_ITEM when the caller had it
  and it was archived, or neither when the caller had it unarchived; then FAVORITE_ITEM
  when the call asked for a favorite and no item of the caller was already one. Each is
  emitted once, with the item read back after the write.
\<close>

theorem upsert_events:
  assumes "getOrCreateItem (input_url input) = Some item"
    and "fst (upsertSavedItem getOrCreateItem input context w) = Inr u"
  shows "events (snd (upsertSavedItem getOrCreateItem input context w)) =
     events w @
     (case fst (getSavedItemById context (toString (itemId item)) w) of
        None \<Rightarrow> [(ADD_ITEM, Some u, [])]
      | Some e \<Rightarrow> if isArchived e then [(UNARCHIVE_ITEM, Some u, [])] else []) @
     (if input_isFavorite input \<and>
         (\<forall>e. fst (getSavedItemById context (toString (itemId item)) w) = Some e \<longrightarrow> \<not> isFavorite e)
      then [(FAVORITE_ITEM, Some u, [])] else [])"
  using assms(2)
  by (auto simp: upsertSavedItem_unfold [where getOrCreateItem = getOrCreateItem, OF assms(1)] Let_def split: option.splits)

text \<open>An upsert that is a new add and a new favorite emits two events, ADD_ITEM and FAVORITE_ITEM.\<close>

theorem upsert_events_witness:
  "example_parser ''http://b'' = Some \<lparr> itemId = 13, parser_resolvedId = 13 \<rparr>
   \<and> fst (getSavedItemById example_context (toString 13) example_world) = None
   \<and> events (snd (upsertSavedItem example_parser
        \<lparr> input_url = ''http://b'', input_isFavorite = True, input_timestamp = 300 \<rparr>
        example_context example_world)) =
       [(ADD_ITEM,
         Some \<lparr> si_id = ''13'', url = ''http://b'', isFavorite = True, isArchived = False \<rparr>, []),
        (FAVORITE_ITEM,
         Some \<lparr> si_id = ''13'', url = ''http://b'', isFavorite = True, isArchived = False \<rparr>, [])]"
proof -
  have h1: "example_parser
      (input_url \<lparr> input_url = ''http://b'', input_isFavorite = True, input_timestamp = 300 \<rparr>) =
      Some \<lparr> itemId = 13, parser_resolvedId = 13 \<rparr>"
    by (simp add: example_parser_def)
  have h2: "fst (upsertSavedItem example_parser
        \<lparr> input_url = ''http://b'', input_isFavorite = True, input_timestamp = 300 \<rparr>
        example_context example_world) =
       Inr \<lparr> si_id = ''13'', url = ''http://b'', isFavorite = True, isArchived = False \<rparr>"
    by code_simp
  have n: "fst (getSavedItemById example_context (toString 13) example_world) = None"
    by code_simp
  have ev: "events example_world = []" by (simp add: example_world_def)
  show ?thesis
    using upsert_events [where getOrCreateItem = example_parser, OF h1 h2] h1 n ev by simp
qed

section \<open>Tag replacement and tag removal\<close>

text \<open>
  C8. For every call of \<^verbatim>\<open>updateSavedItemTags\<close>: with an empty list of tag ids the
  call is rejected with the user-input error and the world is as before, no statement
  issued; with a non-empty list and a saved item the caller does not have, the call
  fails with the not-found error after the one read of the list table, and the tag
  associations, the list table and the events are as before.
\<close>

theorem updateSavedItemTags_rejects:
  "(input_tagIds input = [] \<longrightarrow>
      updateSavedItemTags decodeBase64ToPlainText input context w =
        (Inl (UserInputError
           ''SavedItemTagUpdateInput.tagIds cannot be empty. use mutation updateSavedItemRemoveTags toremove all tags''),
         w))
   \<and> (input_tagIds input \<noteq> [] \<and>
        fst (getSavedItemById context (input_savedItemId input) w) = None \<longrightarrow>
        fst (updateSavedItemTags decodeBase64ToPlainText input context w) =
          Inl (NotFoundError (''SavedItem Id '' @ input_savedItemId input @ '' does not exist''))
        \<and> item_tags (snd (updateSavedItemTags decodeBase64ToPlainText input context w)) = item_tags w
        \<and> list_table (snd (updateSavedItemTags decodeBase64ToPlainText input context w)) = list_table w
        \<and> events (snd (updateSavedItemTags decodeBase64ToPlainText input context w)) = events w
        \<and> statements (snd (updateSavedItemTags decodeBase64ToPlainText input context w)) =
            statements w @ [(dbClient context, Select ''list'')])"
  by (simp add: updateSavedItemTags_def getSavedItemById_def Let_def)

text \<open>Both rejections on the example: an empty tag list for item 10, and tags for the missing item 11.\<close>

theorem updateSavedItemTags_rejects_witness:
  "updateSavedItemTags (\<lambda>t. t) \<lparr> input_savedItemId = ''10'', input_tagIds = [] \<rparr>
      example_context example_world =
     (Inl (UserInputError
        ''SavedItemTagUpdateInput.tagIds cannot be empty. use mutation updateSavedItemRemoveTags toremove all tags''),
      example_world)
   \<and> fst (getSavedItemById example_context ''11'' example_world) = None
   \<and> fst (updateSavedItemTags (\<lambda>t. t) \<lparr> input_savedItemId = ''11'', input_tagIds = [''x''] \<rparr>
        example_context example_world) = Inl (NotFoundError ''SavedItem Id 11 does not exist'')
   \<and> item_tags (snd (updateSavedItemTags (\<lambda>t. t)
        \<lparr> input_savedItemId = ''11'', input_tagIds = [''x''] \<rparr> example_context example_world)) =
       [(1, ''11'', ''old''), (1, ''10'', ''news'')]"
proof -
  have n: "fst (getSavedItemById example_context ''11'' example_world) = None"
    by code_simp
  have t: "item_tags example_world = [(1, ''11'', ''old''), (1, ''10'', ''news'')]"
    by (simp add: example_world_def)
  show ?thesis
    using updateSavedItemTags_rejects
        [of "\<lparr> input_savedItemId = ''10'', input_tagIds = [] \<rparr>" "\<lambda>t. t" example_context example_world]
      updateSavedItemTags_rejects
        [of "\<lparr> input_savedItemId = ''11'', input_tagIds = [''x''] \<rparr>" "\<lambda>t. t" example_context
          example_world]
      n t
    by simp
qed

text \<open>
  C10. For every saved item id that the caller does not have,
  \<^verbatim>\<open>updateSavedItemRemoveTags\<close> fails with the not-found error, and yet the
  associations of that id are deleted: the delete is issued after the read of the tags
  and before the read of the list table that finds the item missing.
\<close>

theorem updateSavedItemRemoveTags_clears_first:
  assumes "fst (getSavedItemById context savedItemId w) = None"
  shows "fst (updateSavedItemRemoveTags savedItemId context w) =
           Inl (NotFoundError (''SavedItem Id '' @ savedItemId @ '' does not exist''))
       \<and> item_tags (snd (updateSavedItemRemoveTags savedItemId context w)) =
           filter (\<lambda>row. \<not> tag_row_of context savedItemId row) (item_tags w)
       \<and> statements (snd (updateSavedItemRemoveTags savedItemId context w)) =
           statements w @
             [(dbClient context, Select ''item_tags''), (dbClient context, Delete ''item_tags''),
              (dbClient context, Select ''list'')]
       \<and> list_table (snd (updateSavedItemRemoveTags savedItemId context w)) = list_table w
       \<and> events (snd (updateSavedItemRemoveTags savedItemId context w)) = events w"
  using assms
  by (simp add: updateSavedItemRemoveTags_def getTagsByUserItem_def getSavedItemById_def
      TagMutationService_updateSavedItemRemoveTags_def Let_def)

text \<open>
  The example has a tag row for item 11, which the user does not have; the call fails and
  the row is gone.
\<close>

theorem updateSavedItemRemoveTags_clears_first_witness:
  "fst (getSavedItemById example_context ''11'' example_world) = None
   \<and> item_tags example_world = [(1, ''11'', ''old''), (1, ''10'', ''news'')]
   \<and> fst (updateSavedItemRemoveTags ''11'' example_context example_world) =
       Inl (NotFoundError ''SavedItem Id 11 does not exist'')
   \<and> item_tags (snd (updateSavedItemRemoveTags ''11'' example_context example_world)) =
       [(1, ''10'', ''news'')]"
proof -
  have n: "fst (getSavedItemById example_context ''11'' example_world) = None"
    by code_simp
  show ?thesis
    using updateSavedItemRemoveTags_clears_first [OF n] n
    by (simp add: example_world_def tag_row_of_def example_context_def)
qed

section \<open>Mutations run on the write client\<close>



end
